theory Spec2Isabelle
  imports Main "HOL-Library.Sublist"
begin

section \<open>Values shared by the chat front-end\<close>

text \<open>
  Python's exceptions are values of \<open>exn\<close>; a function that can raise returns
  \<open>exn + 'a\<close> with \<open>Inl\<close> for the raised exception. Only subclasses of
  \<open>Exception\<close> are modelled (what \<open>except Exception\<close> catches).
\<close>

datatype exn =
  IndexError | KeyError string | TypeError | AttributeError | ValidationError | Exception string

text \<open>
  A Python value that is a string or \<open>None\<close> is a \<open>string option\<close>; \<open>truthy\<close> is
  Python's truth test \<open>if s:\<close> on such a value.
\<close>

fun truthy :: "string option \<Rightarrow> bool" where
  "truthy None = False"
| "truthy (Some s) = (s \<noteq> [])"

text \<open>\<open>x if x else d\<close>: the string, or \<open>d\<close> for \<open>None\<close>.\<close>

fun get_or :: "string option \<Rightarrow> string \<Rightarrow> string" where
  "get_or None d = d"
| "get_or (Some s) d = s"

section \<open>model\_serving\_utils: credentials and task-type resolution\<close>

text \<open>
  \<open>_get_workspace_client_with_token\<close>: a truthy user token gives a client with
  personal-access-token authentication, anything else the service principal's client.
\<close>

datatype credential = UserPat string | ServicePrincipal

fun get_workspace_client_with_token :: "string option \<Rightarrow> credential" where
  "get_workspace_client_with_token None = ServicePrincipal"
| "get_workspace_client_with_token (Some t) = (if t \<noteq> [] then UserPat t else ServicePrincipal)"

text \<open>The endpoint metadata that \<open>w.serving_endpoints.get\<close> returns; only \<open>task\<close> is read.\<close>

record endpoint_info =
  ep_task :: "string option"

type_synonym serving_endpoints_get = "credential \<Rightarrow> string \<Rightarrow> exn + endpoint_info"

text \<open>The body of the \<open>try\<close> block of \<open>_get_endpoint_task_type\<close>.\<close>

definition get_endpoint_task_type_body ::
  "serving_endpoints_get \<Rightarrow> string \<Rightarrow> string option \<Rightarrow> exn + string" where
  "get_endpoint_task_type_body sget endpoint_name user_token =
     (let w = get_workspace_client_with_token user_token in
      case sget w endpoint_name of
        Inl e \<Rightarrow> Inl e
      | Inr ep \<Rightarrow> Inr (if truthy (ep_task ep) then get_or (ep_task ep) [] else ''chat/completions''))"

text \<open>\<open>_get_endpoint_task_type\<close>: the body under \<open>except Exception: return "chat/completions"\<close>.\<close>

definition get_endpoint_task_type ::
  "serving_endpoints_get \<Rightarrow> string \<Rightarrow> string option \<Rightarrow> exn + string" where
  "get_endpoint_task_type sget endpoint_name user_token =
     (case get_endpoint_task_type_body sget endpoint_name user_token of
        Inl e \<Rightarrow> Inr ''chat/completions''
      | Inr t \<Rightarrow> Inr t)"

section \<open>model\_serving\_utils: feedback\<close>

text \<open>The JSON values that \<open>submit_feedback\<close> hands to \<open>json.dumps\<close>.\<close>

datatype json = JNull | JStr string | JList "json list" | JDict "(string \<times> json) list"

record feedback_record =
  fr_source :: string
  fr_request_id :: string
  fr_text_assessments :: string
  fr_retrieval_assessments :: string

record feedback_call =
  fc_method :: string
  fc_path :: string
  fc_dataframe_records :: "feedback_record list"

definition rating_string :: "int option \<Rightarrow> string" where
  "rating_string rating = (if rating = Some 1 then ''positive'' else ''negative'')"

definition text_assessments :: "int option \<Rightarrow> json list" where
  "text_assessments rating =
     (if rating = None then []
      else [JDict [(''ratings'', JDict [(''answer_correct'', JDict [(''value'', JStr (rating_string rating))])]),
                   (''free_text_comment'', JNull)]])"

definition proxy_payload :: "(json \<Rightarrow> string) \<Rightarrow> string \<Rightarrow> int option \<Rightarrow> feedback_record list" where
  "proxy_payload dumps request_id rating =
     [\<lparr>fr_source = dumps (JDict [(''id'', JStr ''e2e-chatbot-app''), (''type'', JStr ''human'')]),
       fr_request_id = request_id,
       fr_text_assessments = dumps (JList (text_assessments rating)),
       fr_retrieval_assessments = dumps (JList [])\<rparr>]"

text \<open>
  \<open>submit_feedback\<close>: \<open>json.dumps\<close> and the workspace client's \<open>api_client.do\<close> are the
  parameters \<open>dumps\<close> and \<open>api_do\<close>; the result is what the one outbound call returns.
\<close>

definition submit_feedback ::
  "(json \<Rightarrow> string) \<Rightarrow> (credential \<Rightarrow> feedback_call \<Rightarrow> exn + 'a) \<Rightarrow>
   string \<Rightarrow> string \<Rightarrow> int option \<Rightarrow> string option \<Rightarrow> exn + 'a" where
  "submit_feedback dumps api_do endpoint request_id rating user_token =
     (let w = get_workspace_client_with_token user_token in
      api_do w \<lparr>fc_method = ''POST'',
                fc_path = ''/serving-endpoints/'' @ endpoint @ ''/served-models/feedback/invocations'',
                fc_dataframe_records = proxy_payload dumps request_id rating\<rparr>)"

section \<open>Dicts, messages and protocol items\<close>

text \<open>
  A key of a dict as the program reads it: not there, there with \<open>None\<close>, or there with
  a value. \<open>dict_get\<close> is \<open>d.get(k)\<close>, \<open>dict_get_default\<close> is \<open>d.get(k, default)\<close>,
  \<open>dict_subscript\<close> is \<open>d[k]\<close> and \<open>dict_store\<close> is the key of a dict literal that holds
  a Python value; a Python value that may be \<open>None\<close> is an \<open>option\<close>.
\<close>

datatype 'a field = Missing | Null | Val 'a

fun dict_get :: "'a field \<Rightarrow> 'a option" where
  "dict_get Missing = None"
| "dict_get Null = None"
| "dict_get (Val v) = Some v"

fun dict_get_default :: "'a field \<Rightarrow> 'a \<Rightarrow> 'a option" where
  "dict_get_default Missing d = Some d"
| "dict_get_default Null d = None"
| "dict_get_default (Val v) d = Some v"


fun dict_store :: "'a option \<Rightarrow> 'a field" where
  "dict_store None = Null"
| "dict_store (Some v) = Val v"

text \<open>
  A chat message as a dict, with the keys \<open>role\<close>, \<open>content\<close>, \<open>tool_calls\<close>,
  \<open>tool_call_id\<close> and \<open>id\<close>; a tool call is the dict
  \<open>{id, type, function: {name, arguments}}\<close>. The values are strings (lists of tool
  calls for \<open>tool_calls\<close>).
\<close>

record dict_function =
  df_name :: "string field"
  df_arguments :: "string field"

record dict_tool_call =
  dt_id :: "string field"
  dt_type :: "string field"
  dt_function :: "dict_function field"

record dict_message =
  dm_role :: "string field"
  dm_content :: "string field"
  dm_tool_calls :: "dict_tool_call list field"
  dm_tool_call_id :: "string field"
  dm_id :: "string field"

text \<open>
  The items of the responses-agent protocol, as dicts: a \<open>message\<close> item carries a list
  of content parts, a \<open>function_call\<close> item \<open>call_id\<close>, \<open>name\<close> and \<open>arguments\<close>, a
  \<open>function_call_output\<close> item \<open>call_id\<close> and \<open>output\<close>.
\<close>

record content_part =
  cp_type :: "string field"
  cp_text :: "string field"

record item =
  it_type :: "string field"
  it_role :: "string field"
  it_id :: "string field"
  it_call_id :: "string field"
  it_name :: "string field"
  it_arguments :: "string field"
  it_output :: "string field"
  it_content :: "content_part list field"

text \<open>
  An entry of the outbound \<open>input\<close> list: the dict \<open>{"role": "user", "content": c}\<close> of a
  user message (\<open>c\<close> is the value of the message's content), or a protocol item.
\<close>

datatype input_entry = UserEntry "string option" | ItemEntry item

text \<open>
  A \<open>ChatAgentMessage\<close> of mlflow, the type of the deltas of a chat-agent stream: a
  pydantic object whose optional attributes are \<open>None\<close> when they are not set, with
  \<open>ToolCall\<close> and \<open>Function\<close> objects for its tool calls.
\<close>

record function_info =
  fn_name :: "string option"
  fn_arguments :: string

record tool_call =
  tc_id :: "string option"
  tc_type :: string
  tc_function :: "function_info option"

record message =
  m_role :: string
  m_content :: "string option"
  m_tool_calls :: "tool_call list option"
  m_tool_call_id :: "string option"
  m_id :: "string option"

section \<open>model\_serving\_utils: the responses-agent request builder\<close>







section \<open>model\_serving\_utils: the non-streaming responses-agent query\<close>

text \<open>
  The inner loop over \<open>content_parts\<close>, on \<open>text_content\<close>:
  \<open>text_content += content_part.get("text", "")\<close> for every part of type
  \<open>output_text\<close>; adding a text that is \<open>None\<close> raises \<open>TypeError\<close>.
\<close>

fun add_parts_text :: "content_part list \<Rightarrow> string \<Rightarrow> exn + string" where
  "add_parts_text [] text_content = Inr text_content"
| "add_parts_text (content_part # rest) text_content =
     (if dict_get (cp_type content_part) = Some ''output_text'' then
        (case dict_get_default (cp_text content_part) [] of
           None \<Rightarrow> Inl TypeError
         | Some text \<Rightarrow> add_parts_text rest (text_content @ text))
      else add_parts_text rest text_content)"

definition text_content_of :: "content_part list \<Rightarrow> exn + string" where
  "text_content_of content_parts = add_parts_text content_parts []"

text \<open>\<open>item.get("content", [])\<close>, as the loop over it needs it: iterating over \<open>None\<close>
  raises \<open>TypeError\<close>.\<close>

definition content_parts_of :: "item \<Rightarrow> exn + content_part list" where
  "content_parts_of it =
     (case dict_get_default (it_content it) [] of
        None \<Rightarrow> Inl TypeError
      | Some content_parts \<Rightarrow> Inr content_parts)"

text \<open>The message dicts that both parsers of the protocol build: for a text, for a
  \<open>function_call\<close> item and for a \<open>function_call_output\<close> item.\<close>

definition assistant_text :: "string \<Rightarrow> dict_message" where
  "assistant_text s =
     \<lparr>dm_role = Val ''assistant'', dm_content = Val s, dm_tool_calls = Missing,
      dm_tool_call_id = Missing, dm_id = Missing\<rparr>"

definition call_message :: "item \<Rightarrow> dict_message" where
  "call_message it =
     \<lparr>dm_role = Val ''assistant'', dm_content = Val [],
      dm_tool_calls =
        Val [\<lparr>dt_id = dict_store (dict_get (it_call_id it)), dt_type = Val ''function'',
               dt_function =
                 Val \<lparr>df_name = dict_store (dict_get (it_name it)),
                      df_arguments = dict_store (dict_get_default (it_arguments it) [])\<rparr>\<rparr>],
      dm_tool_call_id = Missing, dm_id = Missing\<rparr>"

definition output_message :: "item \<Rightarrow> dict_message" where
  "output_message it =
     \<lparr>dm_role = Val ''tool'', dm_content = dict_store (dict_get_default (it_output it) []),
      dm_tool_calls = Missing, dm_tool_call_id = dict_store (dict_get (it_call_id it)),
      dm_id = Missing\<rparr>"

text \<open>What one iteration of \<open>for item in output_items\<close> appends to \<open>result_messages\<close>.\<close>

definition output_item_messages :: "item \<Rightarrow> exn + dict_message list" where
  "output_item_messages it =
     (if dict_get (it_type it) = Some ''message'' then
        (case content_parts_of it of
           Inl e \<Rightarrow> Inl e
         | Inr content_parts \<Rightarrow>
             (case text_content_of content_parts of
                Inl e \<Rightarrow> Inl e
              | Inr text_content \<Rightarrow>
                  Inr (if text_content \<noteq> [] then [assistant_text text_content] else [])))
      else if dict_get (it_type it) = Some ''function_call'' then Inr [call_message it]
      else if dict_get (it_type it) = Some ''function_call_output'' then Inr [output_message it]
      else Inr [])"

fun add_items_messages :: "item list \<Rightarrow> dict_message list \<Rightarrow> exn + dict_message list" where
  "add_items_messages [] result_messages = Inr result_messages"
| "add_items_messages (it # rest) result_messages =
     (case output_item_messages it of
        Inl e \<Rightarrow> Inl e
      | Inr appended \<Rightarrow> add_items_messages rest (result_messages @ appended))"



text \<open>The request payload and the response of the responses-agent call, and the two
  transports: the workspace client's \<open>api_client.do\<close> under a user token, the deployment
  client's \<open>predict\<close> otherwise.\<close>

record responses_inputs =
  ri_input :: "input_entry list"
  ri_stream :: bool
  ri_return_trace :: bool

record databricks_output =
  do_request_id :: "string field"

record response =
  rs_output :: "item list field"
  rs_databricks_output :: "databricks_output field"

record responses_transport =
  api_do :: "credential \<Rightarrow> string \<Rightarrow> responses_inputs \<Rightarrow> exn + response"
  predict :: "string \<Rightarrow> responses_inputs \<Rightarrow> exn + response"





section \<open>model\_serving\_utils: the streaming chat query\<close>

text \<open>
  A raw streamed chunk is a JSON object; the fields are the keys the program looks at:
  \<open>choices\<close> (of which \<open>choices[0].delta.content\<close> is read), \<open>delta\<close>, \<open>type\<close>,
  \<open>item\<close> and \<open>databricks_output.databricks_request_id\<close>. \<open>rc_other\<close> holds every other
  key. \<open>None\<close> is a key that is not there.
\<close>

record choice =
  ch_delta_content :: "string option"

record raw_chunk =
  rc_choices :: "choice list option"
  rc_delta :: "message option"
  rc_type :: "string option"
  rc_item :: "item option"
  rc_request_id :: "string option"
  rc_other :: "(string \<times> json) list"

text \<open>A generator is the list of the values it yields and the way it ends: exhausted
  (\<open>None\<close>) or by raising an exception.\<close>

type_synonym 'a stream = "'a list \<times> exn option"

record chat_inputs =
  ci_messages :: "dict_message list"
  ci_return_trace :: bool

text \<open>
  The transports of the chat query: \<open>requests.post(..., stream=True)\<close> with
  \<open>raise_for_status\<close> and \<open>iter_lines\<close> under a user token (endpoint, token, payload),
  the deployment client's \<open>predict_stream\<close> otherwise, and \<open>json.loads\<close>
  (\<open>None\<close> is \<open>JSONDecodeError\<close>).
\<close>

record chat_transport =
  ct_post_lines :: "string \<Rightarrow> string \<Rightarrow> chat_inputs \<Rightarrow> exn + string stream"
  ct_predict_stream :: "string \<Rightarrow> chat_inputs \<Rightarrow> raw_chunk stream"
  ct_loads :: "string \<Rightarrow> raw_chunk option"

text \<open>The characters that \<open>str.strip()\<close> removes, among the ASCII characters.\<close>

definition is_space :: "char \<Rightarrow> bool" where
  "is_space c =
     (c \<in> set [CHR '' '', CHR 0x09, CHR 0x0A, CHR 0x0B, CHR 0x0C, CHR 0x0D,
                CHR 0x1C, CHR 0x1D, CHR 0x1E, CHR 0x1F])"

definition strip :: "string \<Rightarrow> string" where
  "strip s = rev (dropWhile is_space (rev (dropWhile is_space s)))"

text \<open>\<open>_throw_unexpected_endpoint_format\<close>.\<close>

definition unexpected_endpoint_format :: exn where
  "unexpected_endpoint_format =
     Exception ''This app can only run against ChatModel, ChatAgent, or ResponsesAgent endpoints''"

text \<open>What one iteration of \<open>for line in response.iter_lines()\<close> yields (user token).\<close>

definition line_chunks :: "(string \<Rightarrow> raw_chunk option) \<Rightarrow> string \<Rightarrow> raw_chunk list" where
  "line_chunks loads line =
     (if line \<noteq> [] then
        (let line_str = (if take 6 line = ''data: '' then drop 6 line else line) in
         if strip line_str \<noteq> [] then
           (case loads line_str of
              None \<Rightarrow> []
            | Some chunk \<Rightarrow>
                if rc_choices chunk \<noteq> None then [chunk]
                else if rc_delta chunk \<noteq> None then [chunk]
                else [])
         else [])
      else [])"

text \<open>The loop \<open>for chunk in client.predict_stream(...)\<close> (service credential).\<close>

fun app_chunks :: "raw_chunk list \<Rightarrow> exn option \<Rightarrow> raw_chunk stream" where
  "app_chunks [] ending = ([], ending)"
| "app_chunks (chunk # chunks) ending =
     (if rc_choices chunk \<noteq> None then (chunk # fst (app_chunks chunks ending), snd (app_chunks chunks ending))
      else if rc_delta chunk \<noteq> None then (chunk # fst (app_chunks chunks ending), snd (app_chunks chunks ending))
      else ([], Some unexpected_endpoint_format))"

definition query_chat_endpoint_stream ::
  "chat_transport \<Rightarrow> string \<Rightarrow> dict_message list \<Rightarrow> bool \<Rightarrow> string option \<Rightarrow>
   raw_chunk stream" where
  "query_chat_endpoint_stream tr endpoint_name messages return_traces user_token =
     (let inputs = \<lparr>ci_messages = messages, ci_return_trace = return_traces\<rparr> in
      if truthy user_token then
        (case ct_post_lines tr endpoint_name (get_or user_token []) inputs of
           Inl e \<Rightarrow> ([], Some e)
         | Inr (lines, ending) \<Rightarrow> (concat (map (line_chunks (ct_loads tr)) lines), ending))
      else
        (case ct_predict_stream tr endpoint_name inputs of
           (chunks, ending) \<Rightarrow> app_chunks chunks ending))"

section \<open>chat\_service: the chunk reducer\<close>

record chat_agent_chunk =
  delta :: message

text \<open>An entry of \<open>tool_call_map\<close>: the dict
  \<open>{"id": ..., "type": ..., "function": {"name": ..., "arguments": ...}}\<close>.\<close>

record accumulated_call =
  ac_id :: string
  ac_type :: string
  ac_name :: "string option"
  ac_arguments :: string

definition to_tool_call :: "accumulated_call \<Rightarrow> tool_call" where
  "to_tool_call c =
     \<lparr>tc_id = Some (ac_id c), tc_type = ac_type c,
      tc_function = Some \<lparr>fn_name = ac_name c, fn_arguments = ac_arguments c\<rparr>\<rparr>"

text \<open>\<open>tool_call_map\<close> is an insertion-ordered dict: an association list in which a new key
  goes to the end and an existing key is updated in place.\<close>

fun update_call ::
  "string \<Rightarrow> (accumulated_call \<Rightarrow> accumulated_call) \<Rightarrow> (string \<times> accumulated_call) list \<Rightarrow>
   (string \<times> accumulated_call) list" where
  "update_call k f [] = []"
| "update_call k f ((k', v) # kvs) =
     (if k' = k then (k', f v) # kvs else (k', v) # update_call k f kvs)"

text \<open>The body of \<open>for tool_call in delta.tool_calls\<close>.\<close>

definition upsert_tool_call ::
  "tool_call \<Rightarrow> (string \<times> accumulated_call) list \<Rightarrow> (string \<times> accumulated_call) list" where
  "upsert_tool_call tool_call tool_call_map =
     (let call_id = tc_id tool_call;
          tool_type = tc_type tool_call;
          func_name = (case tc_function tool_call of Some fi \<Rightarrow> fn_name fi | None \<Rightarrow> Some []);
          func_args = (case tc_function tool_call of Some fi \<Rightarrow> fn_arguments fi | None \<Rightarrow> [])
      in if truthy call_id then
           (let cid = get_or call_id [] in
            if cid \<notin> set (map fst tool_call_map)
            then tool_call_map @ [(cid, \<lparr>ac_id = cid, ac_type = tool_type, ac_name = func_name,
                                         ac_arguments = func_args\<rparr>)]
            else update_call cid
                   (\<lambda>existing. existing\<lparr>ac_arguments := ac_arguments existing @ func_args,
                                         ac_name := (if truthy func_name then func_name
                                                     else ac_name existing)\<rparr>)
                   tool_call_map)
         else tool_call_map)"

text \<open>The body of \<open>for delta in deltas\<close>, on the loop's three variables.\<close>

definition reduce_step ::
  "message \<Rightarrow> string list \<times> (string \<times> accumulated_call) list \<times> message \<Rightarrow>
   string list \<times> (string \<times> accumulated_call) list \<times> message" where
  "reduce_step d st =
     (case st of (msg_contents, tool_call_map, result_msg) \<Rightarrow>
        (if truthy (m_content d) then msg_contents @ [get_or (m_content d) []] else msg_contents,
         (case m_tool_calls d of
            None \<Rightarrow> tool_call_map
          | Some tcs \<Rightarrow> if tcs \<noteq> [] then fold upsert_tool_call tcs tool_call_map else tool_call_map),
         if truthy (m_tool_call_id d) then result_msg\<lparr>m_tool_call_id := m_tool_call_id d\<rparr>
         else result_msg))"

text \<open>The reducer once \<open>first_delta = deltas[0]\<close> is there: the loop, then the three
  \<open>model_copy\<close> updates.\<close>

definition reduce_deltas :: "message \<Rightarrow> message list \<Rightarrow> message" where
  "reduce_deltas first_delta deltas =
     (case fold reduce_step deltas ([], [], first_delta) of
        (msg_contents, tool_call_map, result_msg) \<Rightarrow>
          (if tool_call_map \<noteq> []
           then result_msg\<lparr>m_tool_calls := Some (map (\<lambda>kv. to_tool_call (snd kv)) tool_call_map)\<rparr>
           else result_msg)
          \<lparr>m_content := Some (concat msg_contents)\<rparr>)"

text \<open>\<open>reduce_chat_agent_chunks\<close>; \<open>deltas[0]\<close> raises \<open>IndexError\<close> on an empty list.\<close>

definition reduce_chat_agent_chunks :: "chat_agent_chunk list \<Rightarrow> exn + message" where
  "reduce_chat_agent_chunks chunks =
     (let deltas = map delta chunks in
      case deltas of
        [] \<Rightarrow> Inl IndexError
      | first_delta # _ \<Rightarrow> Inr (reduce_deltas first_delta deltas))"

section \<open>chat\_service: the streaming orchestrator\<close>

text \<open>
  \<open>ChatService\<close> holds the endpoint's name and whether it supports feedback. What the
  service calls from outside this module are the fields of \<open>backend\<close>: the two functions
  it imports, \<open>query_endpoint_stream\<close> and \<open>query_endpoint\<close>, called with the keyword
  arguments of the source (an argument that a call leaves out has its default, \<open>None\<close>),
  and of mlflow \<open>ChatAgentChunk.model_validate\<close>, the \<open>model_dump_compat(exclude_none=True)\<close>
  of a \<open>ChatAgentMessage\<close>, and \<open>ResponsesAgentStreamEvent.model_validate\<close>. Of a
  validated stream event the service reads \<open>event.item\<close>; \<open>ev_item\<close> is \<open>None\<close> when the
  event has no such attribute or an empty one.
\<close>

record chat_service =
  endpoint_name :: string
  supports_feedback :: bool

record endpoint_call =
  ec_endpoint_name :: string
  ec_messages :: "dict_message list"
  ec_return_traces :: bool
  ec_user_token :: "string option"

record stream_event =
  ev_item :: "item option"

record backend =
  query_endpoint_stream :: "endpoint_call \<Rightarrow> raw_chunk stream"
  query_endpoint :: "endpoint_call \<Rightarrow> exn + (dict_message list \<times> string option)"
  chunk_validate :: "raw_chunk \<Rightarrow> exn + chat_agent_chunk"
  model_dump :: "message \<Rightarrow> dict_message"
  event_validate :: "raw_chunk \<Rightarrow> exn + stream_event"

record assistant_response =
  ar_messages :: "dict_message list"
  ar_request_id :: "string option"
  ar_user_token :: "string option"

text \<open>
  What the orchestrator does to the outside, in order: a call of the render callback
  with a phase and its data (\<open>ErrorText e\<close> is \<open>str(e)\<close>), the start of a stream, a
  non-streaming query.
\<close>

datatype render_data =
    NoData
  | ErrorText exn
  | Accumulated string
  | AgentUpdate "string option" dict_message "dict_message list"
  | Messages "dict_message list"

datatype effect = Render string render_data | StreamCall endpoint_call | QueryCall endpoint_call

text \<open>\<open>if render_callback: render_callback(phase, data)\<close>.\<close>

definition render :: "bool \<Rightarrow> string \<Rightarrow> render_data \<Rightarrow> effect list" where
  "render has_callback phase data = (if has_callback then [Render phase data] else [])"

text \<open>The \<open>except Exception as e\<close> block of the three query methods, with the call of
  \<open>query_endpoint\<close> that the method makes.\<close>

definition fallback ::
  "backend \<Rightarrow> bool \<Rightarrow> exn \<Rightarrow> endpoint_call \<Rightarrow> effect list \<times> (exn + assistant_response)" where
  "fallback be has_callback e call =
     (case query_endpoint be call of
        Inl e' \<Rightarrow> (render has_callback ''error'' (ErrorText e) @ [QueryCall call], Inl e')
      | Inr (messages, request_id) \<Rightarrow>
          (render has_callback ''error'' (ErrorText e) @ [QueryCall call] @
             render has_callback ''complete'' (Messages messages),
           Inr \<lparr>ar_messages = messages, ar_request_id = request_id, ar_user_token = None\<rparr>))"

subsection \<open>chat/completions\<close>

text \<open>The loop body, on \<open>accumulated_content\<close>, \<open>request_id\<close> and the effects so far.\<close>

definition completions_step ::
  "bool \<Rightarrow> raw_chunk \<Rightarrow> string \<times> string option \<times> effect list \<Rightarrow>
   string \<times> string option \<times> effect list" where
  "completions_step has_callback chunk st =
     (case st of (accumulated_content, request_id, trace) \<Rightarrow>
        (let content = (case rc_choices chunk of
                          Some (c # cs) \<Rightarrow> get_or (ch_delta_content c) []
                        | _ \<Rightarrow> []);
             req_id = rc_request_id chunk
         in (if content \<noteq> [] then accumulated_content @ content else accumulated_content,
             if truthy req_id then req_id else request_id,
             if content \<noteq> []
             then trace @ render has_callback ''chunk'' (Accumulated (accumulated_content @ content))
             else trace)))"

definition query_chat_completions_endpoint ::
  "backend \<Rightarrow> chat_service \<Rightarrow> dict_message list \<Rightarrow> bool \<Rightarrow> string option \<Rightarrow>
   effect list \<times> (exn + assistant_response)" where
  "query_chat_completions_endpoint be self input_messages has_callback user_token =
     (let call = \<lparr>ec_endpoint_name = endpoint_name self, ec_messages = input_messages,
                   ec_return_traces = supports_feedback self, ec_user_token = user_token\<rparr>
      in case query_endpoint_stream be call of
        (chunks, ending) \<Rightarrow>
          (case fold (completions_step has_callback) chunks
                  ([], None, render has_callback ''start'' NoData @ [StreamCall call]) of
             (accumulated_content, request_id, trace) \<Rightarrow>
               (case ending of
                  None \<Rightarrow>
                    (trace @ render has_callback ''complete'' (Messages [assistant_text accumulated_content]),
                     Inr \<lparr>ar_messages = [assistant_text accumulated_content],
                          ar_request_id = request_id, ar_user_token = user_token\<rparr>)
                | Some e \<Rightarrow>
                    (case fallback be has_callback e
                            \<lparr>ec_endpoint_name = endpoint_name self, ec_messages = input_messages,
                             ec_return_traces = supports_feedback self, ec_user_token = None\<rparr> of
                       (t, r) \<Rightarrow> (trace @ t, r)))))"

subsection \<open>agent/v2/chat\<close>

text \<open>\<open>message_buffers\<close> is an \<open>OrderedDict\<close> from message id to the chunks seen for it.\<close>

type_synonym buffers = "(string option \<times> chat_agent_chunk list) list"

fun append_chunk :: "string option \<Rightarrow> chat_agent_chunk \<Rightarrow> buffers \<Rightarrow> buffers" where
  "append_chunk message_id chunk [] = [(message_id, [chunk])]"
| "append_chunk message_id chunk ((k, chunks) # rest) =
     (if k = message_id then (k, chunks @ [chunk]) # rest
      else (k, chunks) # append_chunk message_id chunk rest)"

fun buffer_of :: "buffers \<Rightarrow> string option \<Rightarrow> chat_agent_chunk list" where
  "buffer_of [] message_id = []"
| "buffer_of ((k, chunks) # rest) message_id = (if k = message_id then chunks else buffer_of rest message_id)"

text \<open>The comprehension \<open>[reduce_chat_agent_chunks(chunks).model_dump_compat(...) for
  chunks in message_buffers.values()]\<close>, with the dump as \<open>dump\<close>.\<close>

fun reduce_all ::
  "(message \<Rightarrow> dict_message) \<Rightarrow> chat_agent_chunk list list \<Rightarrow> exn + dict_message list" where
  "reduce_all dump [] = Inr []"
| "reduce_all dump (chunks # rest) =
     (case reduce_chat_agent_chunks chunks of
        Inl e \<Rightarrow> Inl e
      | Inr m \<Rightarrow> (case reduce_all dump rest of Inl e \<Rightarrow> Inl e | Inr ms \<Rightarrow> Inr (dump m # ms)))"

text \<open>The loop body, on \<open>message_buffers\<close>, \<open>request_id\<close> and the effects so far.\<close>

definition agent_step ::
  "backend \<Rightarrow> bool \<Rightarrow> raw_chunk \<Rightarrow> buffers \<times> string option \<times> effect list \<Rightarrow>
   exn + (buffers \<times> string option \<times> effect list)" where
  "agent_step be has_callback raw_chunk st =
     (case st of (message_buffers, request_id, trace) \<Rightarrow>
        (case chunk_validate be raw_chunk of
           Inl e \<Rightarrow> Inl e
         | Inr chunk \<Rightarrow>
             (let message_id = m_id (delta chunk);
                  req_id = rc_request_id raw_chunk;
                  request_id' = (if truthy req_id then req_id else request_id);
                  message_buffers' = append_chunk message_id chunk message_buffers
              in case reduce_chat_agent_chunks (buffer_of message_buffers' message_id) of
                   Inl e \<Rightarrow> Inl e
                 | Inr partial_message \<Rightarrow>
                     if has_callback then
                       (case reduce_all (model_dump be) (map snd message_buffers') of
                          Inl e \<Rightarrow> Inl e
                        | Inr all_messages \<Rightarrow>
                            Inr (message_buffers', request_id',
                                 trace @ [Render ''chunk''
                                            (AgentUpdate message_id (model_dump be partial_message)
                                               all_messages)]))
                     else Inr (message_buffers', request_id', trace))))"

text \<open>The loop: it stops at the first chunk whose processing raises, with the state
  reached before that chunk.\<close>

fun agent_loop ::
  "backend \<Rightarrow> bool \<Rightarrow> raw_chunk list \<Rightarrow> buffers \<times> string option \<times> effect list \<Rightarrow>
   (buffers \<times> string option \<times> effect list) \<times> exn option" where
  "agent_loop be has_callback [] st = (st, None)"
| "agent_loop be has_callback (raw_chunk # rest) st =
     (case agent_step be has_callback raw_chunk st of
        Inl e \<Rightarrow> (st, Some e)
      | Inr st' \<Rightarrow> agent_loop be has_callback rest st')"

definition query_chat_agent_endpoint ::
  "backend \<Rightarrow> chat_service \<Rightarrow> dict_message list \<Rightarrow> bool \<Rightarrow> string option \<Rightarrow>
   effect list \<times> (exn + assistant_response)" where
  "query_chat_agent_endpoint be self input_messages has_callback user_token =
     (let call = \<lparr>ec_endpoint_name = endpoint_name self, ec_messages = input_messages,
                   ec_return_traces = supports_feedback self, ec_user_token = user_token\<rparr>
      in case query_endpoint_stream be call of
        (chunks, ending) \<Rightarrow>
          (case agent_loop be has_callback chunks
                  ([], None, render has_callback ''start'' NoData @ [StreamCall call]) of
             ((message_buffers, request_id, trace), raised) \<Rightarrow>
               (case (case raised of
                        Some e \<Rightarrow> Inl e
                      | None \<Rightarrow> (case ending of
                                   Some e \<Rightarrow> Inl e
                                 | None \<Rightarrow> reduce_all (model_dump be) (map snd message_buffers))) of
                  Inr messages \<Rightarrow>
                    (trace @ render has_callback ''complete'' (Messages messages),
                     Inr \<lparr>ar_messages = messages, ar_request_id = request_id,
                          ar_user_token = user_token\<rparr>)
                | Inl e \<Rightarrow>
                    (case fallback be has_callback e
                            \<lparr>ec_endpoint_name = endpoint_name self, ec_messages = input_messages,
                             ec_return_traces = supports_feedback self, ec_user_token = user_token\<rparr> of
                       (t, r) \<Rightarrow> (trace @ t, r)))))"

subsection \<open>agent/v1/responses\<close>

text \<open>What the loop over the content parts of a streamed \<open>message\<close> item appends for
  one part: \<open>text = content_part.get("text", "")\<close>, and a message \<open>if text\<close>.\<close>

definition part_messages :: "content_part \<Rightarrow> dict_message list" where
  "part_messages content_part =
     (if dict_get (cp_type content_part) = Some ''output_text'' then
        (let text = dict_get_default (cp_text content_part) [] in
         if truthy text then [assistant_text (get_or text [])] else [])
      else [])"

text \<open>What one streamed item appends to \<open>all_messages\<close>.\<close>

definition stream_item_messages :: "item \<Rightarrow> exn + dict_message list" where
  "stream_item_messages it =
     (if dict_get (it_type it) = Some ''message'' then
        (case content_parts_of it of
           Inl e \<Rightarrow> Inl e
         | Inr content_parts \<Rightarrow>
             Inr (fold (\<lambda>content_part appended. appended @ part_messages content_part)
                    content_parts []))
      else if dict_get (it_type it) = Some ''function_call'' then Inr [call_message it]
      else if dict_get (it_type it) = Some ''function_call_output'' then Inr [output_message it]
      else Inr [])"

text \<open>
  The loop body, on \<open>all_messages\<close>, \<open>request_id\<close> and the effects so far: an event with
  a \<open>type\<close> is validated, and its item, when it has one, is read.
\<close>

definition responses_step ::
  "backend \<Rightarrow> bool \<Rightarrow> raw_chunk \<Rightarrow> dict_message list \<times> string option \<times> effect list \<Rightarrow>
   exn + (dict_message list \<times> string option \<times> effect list)" where
  "responses_step be has_callback raw_event st =
     (case st of (all_messages, request_id, trace) \<Rightarrow>
        (let req_id = rc_request_id raw_event;
             request_id' = (if truthy req_id then req_id else request_id)
         in case (if rc_type raw_event \<noteq> None then
                    (case event_validate be raw_event of
                       Inl e \<Rightarrow> Inl e
                     | Inr event \<Rightarrow>
                         (case ev_item event of
                            None \<Rightarrow> Inr all_messages
                          | Some it \<Rightarrow>
                              (case stream_item_messages it of
                                 Inl e \<Rightarrow> Inl e
                               | Inr appended \<Rightarrow> Inr (all_messages @ appended))))
                  else Inr all_messages) of
              Inl e \<Rightarrow> Inl e
            | Inr all_messages' \<Rightarrow>
                Inr (all_messages', request_id',
                     if all_messages' \<noteq> [] \<and> has_callback
                     then trace @ [Render ''chunk'' (Messages all_messages')]
                     else trace)))"

text \<open>The loop: it stops at the first event whose processing raises.\<close>

fun responses_loop ::
  "backend \<Rightarrow> bool \<Rightarrow> raw_chunk list \<Rightarrow> dict_message list \<times> string option \<times> effect list \<Rightarrow>
   (dict_message list \<times> string option \<times> effect list) \<times> exn option" where
  "responses_loop be has_callback [] st = (st, None)"
| "responses_loop be has_callback (raw_event # rest) st =
     (case responses_step be has_callback raw_event st of
        Inl e \<Rightarrow> (st, Some e)
      | Inr st' \<Rightarrow> responses_loop be has_callback rest st')"

definition query_responses_endpoint_streaming ::
  "backend \<Rightarrow> chat_service \<Rightarrow> dict_message list \<Rightarrow> bool \<Rightarrow> string option \<Rightarrow>
   effect list \<times> (exn + assistant_response)" where
  "query_responses_endpoint_streaming be self input_messages has_callback user_token =
     (let call = \<lparr>ec_endpoint_name = endpoint_name self, ec_messages = input_messages,
                   ec_return_traces = supports_feedback self, ec_user_token = user_token\<rparr>
      in case query_endpoint_stream be call of
        (events, ending) \<Rightarrow>
          (case responses_loop be has_callback events
                  ([], None, render has_callback ''start'' NoData @ [StreamCall call]) of
             ((all_messages, request_id, trace), raised) \<Rightarrow>
               (case (case raised of Some e \<Rightarrow> Some e | None \<Rightarrow> ending) of
                  None \<Rightarrow>
                    (trace @ render has_callback ''complete'' (Messages all_messages),
                     Inr \<lparr>ar_messages = all_messages, ar_request_id = request_id,
                          ar_user_token = None\<rparr>)
                | Some e \<Rightarrow>
                    (case fallback be has_callback e
                            \<lparr>ec_endpoint_name = endpoint_name self, ec_messages = input_messages,
                             ec_return_traces = supports_feedback self, ec_user_token = user_token\<rparr> of
                       (t, r) \<Rightarrow> (trace @ t, r)))))"

subsection \<open>Dispatch\<close>

definition query_and_process ::
  "backend \<Rightarrow> chat_service \<Rightarrow> string \<Rightarrow> dict_message list \<Rightarrow> bool \<Rightarrow> string option \<Rightarrow>
   effect list \<times> (exn + assistant_response)" where
  "query_and_process be self task_type input_messages has_callback user_token =
     (if task_type = ''agent/v1/responses''
      then query_responses_endpoint_streaming be self input_messages has_callback user_token
      else if task_type = ''agent/v2/chat''
      then query_chat_agent_endpoint be self input_messages has_callback user_token
      else query_chat_completions_endpoint be self input_messages has_callback user_token)"

section \<open>The reducer's contract\<close>

text \<open>What the reducer reads of a delta and of a tool call: \<open>delta.tool_calls\<close> as a
  list, and \<open>func_name\<close> and \<open>func_args\<close> as the loop body computes them.\<close>

definition calls_of :: "message \<Rightarrow> tool_call list" where
  "calls_of d = (case m_tool_calls d of None \<Rightarrow> [] | Some tcs \<Rightarrow> tcs)"

definition call_name :: "tool_call \<Rightarrow> string option" where
  "call_name tc = (case tc_function tc of Some fi \<Rightarrow> fn_name fi | None \<Rightarrow> Some [])"

definition call_args :: "tool_call \<Rightarrow> string" where
  "call_args tc = (case tc_function tc of Some fi \<Rightarrow> fn_arguments fi | None \<Rightarrow> [])"

text \<open>The sightings of a fragment sequence: its tool calls in arrival order, those that
  carry a call id (the loop body skips a tool call whose id is missing or empty).\<close>

definition sightings :: "message list \<Rightarrow> tool_call list" where
  "sightings deltas = filter (\<lambda>tc. truthy (tc_id tc)) (concat (map calls_of deltas))"

text \<open>
  The specification's rule for tool calls, as a function of the sightings: the first
  sighting of an id gives the call's place in the list, its type, its name and its first
  arguments; the later sightings of that id append their arguments in order, and the name
  is that of the last later sighting with a non-empty name, if there is one.
\<close>

fun spec_tool_calls :: "tool_call list \<Rightarrow> tool_call list" where
  "spec_tool_calls [] = []"
| "spec_tool_calls (s # later) =
     \<lparr>tc_id = tc_id s, tc_type = tc_type s,
      tc_function = Some
        \<lparr>fn_name = last (call_name s # filter truthy (map call_name (filter (\<lambda>tc. tc_id tc = tc_id s) later))),
         fn_arguments = call_args s @ concat (map call_args (filter (\<lambda>tc. tc_id tc = tc_id s) later))\<rparr>\<rparr>
     # spec_tool_calls (filter (\<lambda>tc. tc_id tc \<noteq> tc_id s) later)"

text \<open>The message's content and the tool calls it reports.\<close>

definition content_str :: "message \<Rightarrow> string" where
  "content_str m = get_or (m_content m) []"

definition result_calls :: "exn + message \<Rightarrow> tool_call list" where
  "result_calls r = (case r of Inl e \<Rightarrow> [] | Inr m \<Rightarrow> calls_of m)"

text \<open>The parts of the reducer's loop, used to state what the loop computes: the entry
  made at the first sighting of an id, the update made at a later one, the content pieces,
  the final \<open>tool_call_map\<close> and the update of \<open>tool_call_id\<close>.\<close>

definition new_call :: "tool_call \<Rightarrow> accumulated_call" where
  "new_call tc = \<lparr>ac_id = get_or (tc_id tc) [], ac_type = tc_type tc, ac_name = call_name tc,
                  ac_arguments = call_args tc\<rparr>"

definition absorb :: "tool_call \<Rightarrow> accumulated_call \<Rightarrow> accumulated_call" where
  "absorb tc existing =
     existing\<lparr>ac_arguments := ac_arguments existing @ call_args tc,
              ac_name := (if truthy (call_name tc) then call_name tc else ac_name existing)\<rparr>"

definition contents_of :: "message list \<Rightarrow> string list" where
  "contents_of deltas =
     concat (map (\<lambda>d. if truthy (m_content d) then [get_or (m_content d) []] else []) deltas)"

definition tool_map_of :: "message list \<Rightarrow> (string \<times> accumulated_call) list" where
  "tool_map_of deltas = fold upsert_tool_call (concat (map calls_of deltas)) []"

definition keep_tool_call_id :: "message \<Rightarrow> message \<Rightarrow> message" where
  "keep_tool_call_id d result_msg =
     (if truthy (m_tool_call_id d) then result_msg\<lparr>m_tool_call_id := m_tool_call_id d\<rparr>
      else result_msg)"


section \<open>The orchestrator's contract for chat-agent streams\<close>

text \<open>The message identity of a chunk, and the identities of a stream in the order of
  their first appearance.\<close>

definition chunk_id :: "chat_agent_chunk \<Rightarrow> string option" where
  "chunk_id c = m_id (delta c)"

fun first_seen :: "'a list \<Rightarrow> 'a list" where
  "first_seen [] = []"
| "first_seen (x # xs) = x # first_seen (filter (\<lambda>y. y \<noteq> x) xs)"



text \<open>
  The \<open>chunk\<close> phases of a stream: after each chunk, its message id, the dump of the
  reduction of the chunks seen so far with that id, and the dumps of the messages of all
  the chunks seen so far.
\<close>

definition partial_message :: "chat_agent_chunk list \<Rightarrow> chat_agent_chunk \<Rightarrow> message" where
  "partial_message pre c =
     (let own = filter (\<lambda>x. chunk_id x = chunk_id c) pre in
      reduce_deltas (delta (case own of [] \<Rightarrow> c | x # _ \<Rightarrow> x)) (map delta (own @ [c])))"




section \<open>Concrete inputs\<close>

text \<open>The items among the entries of a request, as the endpoint would echo them.\<close>

definition items_of :: "input_entry list \<Rightarrow> item list" where
  "items_of entries = concat (map (\<lambda>e. case e of ItemEntry it \<Rightarrow> [it] | UserEntry c \<Rightarrow> []) entries)"






text \<open>A \<open>message\<close> item with two \<open>output_text\<close> parts.\<close>

definition two_part_item :: item where
  "two_part_item =
     \<lparr>it_type = Val ''message'', it_role = Val ''assistant'', it_id = Val ''msg-1'',
      it_call_id = Missing, it_name = Missing, it_arguments = Missing, it_output = Missing,
      it_content = Val [\<lparr>cp_type = Val ''output_text'', cp_text = Val ''Hello, ''\<rparr>,
                        \<lparr>cp_type = Val ''output_text'', cp_text = Val ''world''\<rparr>]\<rparr>"

definition two_part_event :: raw_chunk where
  "two_part_event =
     \<lparr>rc_choices = None, rc_delta = None, rc_type = Some ''response.output_item.done'',
      rc_item = Some two_part_item, rc_request_id = None, rc_other = []\<rparr>"

text \<open>The raw chunk \<open>{"foo": "bar"}\<close>, and transports that deliver it: as the one line
  \<open>data: {"foo": "bar"}\<close> under a user token, as the one chunk otherwise.\<close>

definition foo_chunk :: raw_chunk where
  "foo_chunk =
     \<lparr>rc_choices = None, rc_delta = None, rc_type = None, rc_item = None, rc_request_id = None,
      rc_other = [(''foo'', JStr ''bar'')]\<rparr>"

definition foo_transport :: chat_transport where
  "foo_transport =
     \<lparr>ct_post_lines = (\<lambda>endpoint token inputs. Inr ([''data: {\"foo\": \"bar\"}''], None)),
      ct_predict_stream = (\<lambda>endpoint inputs. ([foo_chunk], None)),
      ct_loads = (\<lambda>s. if s = ''{\"foo\": \"bar\"}'' then Some foo_chunk else None)\<rparr>"

definition example_service :: chat_service where
  "example_service = \<lparr>endpoint_name = ''my-endpoint'', supports_feedback = True\<rparr>"

definition example_user :: dict_message where
  "example_user =
     \<lparr>dm_role = Val ''user'', dm_content = Val ''Hi'', dm_tool_calls = Missing,
      dm_tool_call_id = Missing, dm_id = Missing\<rparr>"

text \<open>
  For the mlflow functions of a concrete backend: a chunk validator that accepts a raw
  chunk when it has a \<open>delta\<close> with a message id and with content or tool calls, a dump
  that leaves out what is \<open>None\<close>, and an event validator that accepts an event and hands
  on its item.
\<close>

definition model_validate :: "raw_chunk \<Rightarrow> exn + chat_agent_chunk" where
  "model_validate raw =
     (case rc_delta raw of
        None \<Rightarrow> Inl ValidationError
      | Some d \<Rightarrow>
          if m_id d = None then Inl ValidationError
          else if m_content d = None \<and> m_tool_calls d = None then Inl ValidationError
          else Inr \<lparr>delta = d\<rparr>)"

fun present :: "'a option \<Rightarrow> 'a field" where
  "present None = Missing"
| "present (Some v) = Val v"

definition dump_function :: "function_info \<Rightarrow> dict_function" where
  "dump_function f = \<lparr>df_name = present (fn_name f), df_arguments = Val (fn_arguments f)\<rparr>"

definition dump_tool_call :: "tool_call \<Rightarrow> dict_tool_call" where
  "dump_tool_call tc =
     \<lparr>dt_id = present (tc_id tc), dt_type = Val (tc_type tc),
      dt_function = present (map_option dump_function (tc_function tc))\<rparr>"

definition plain_dump :: "message \<Rightarrow> dict_message" where
  "plain_dump m =
     \<lparr>dm_role = Val (m_role m), dm_content = present (m_content m),
      dm_tool_calls = present (map_option (map dump_tool_call) (m_tool_calls m)),
      dm_tool_call_id = present (m_tool_call_id m), dm_id = present (m_id m)\<rparr>"

definition accept_event :: "raw_chunk \<Rightarrow> exn + stream_event" where
  "accept_event raw = Inr \<lparr>ev_item = rc_item raw\<rparr>"

text \<open>A backend whose stream yields the given events and then ends, or raises.\<close>

definition stream_backend :: "raw_chunk list \<Rightarrow> exn option \<Rightarrow> backend" where
  "stream_backend events ending =
     \<lparr>query_endpoint_stream = (\<lambda>call. (events, ending)),
      query_endpoint = (\<lambda>call. Inr ([assistant_text ''Hello''], Some ''req-1'')),
      chunk_validate = model_validate, model_dump = plain_dump, event_validate = accept_event\<rparr>"

text \<open>Chat-agent chunks of the message \<open>m1\<close>, and a tool-call fragment.\<close>

definition agent_chunk :: "string \<Rightarrow> string option \<Rightarrow> tool_call list option \<Rightarrow> chat_agent_chunk" where
  "agent_chunk message_id content tool_calls =
     \<lparr>delta = \<lparr>m_role = ''assistant'', m_content = content, m_tool_calls = tool_calls,
                m_tool_call_id = None, m_id = Some message_id\<rparr>\<rparr>"

definition call_piece :: "string \<Rightarrow> string \<Rightarrow> string \<Rightarrow> tool_call" where
  "call_piece call_id name arguments =
     \<lparr>tc_id = Some call_id, tc_type = ''function'',
      tc_function = Some \<lparr>fn_name = Some name, fn_arguments = arguments\<rparr>\<rparr>"

text \<open>The two fragments of the call \<open>a\<close> with the argument pieces \<open>{"x":1\<close> and \<open>}\<close>.\<close>

definition argument_pieces :: "chat_agent_chunk list" where
  "argument_pieces =
     [agent_chunk ''m1'' None (Some [call_piece ''a'' ''lookup'' ''{\"x\":1'']),
      agent_chunk ''m1'' None (Some [call_piece ''a'' [] ''}''])]"

text \<open>Two fragments with content and a growing tool call.\<close>

definition growing_pieces :: "chat_agent_chunk list" where
  "growing_pieces =
     [agent_chunk ''m1'' (Some ''Hel'') (Some [call_piece ''a'' ''lookup'' ''{'']),
      agent_chunk ''m1'' (Some ''lo'') (Some [call_piece ''a'' [] ''}''])]"

text \<open>Two fragments of a tool call whose id is the empty string.\<close>

definition unnamed_pieces :: "chat_agent_chunk list" where
  "unnamed_pieces =
     [agent_chunk ''m1'' None (Some [call_piece [] ''lookup'' ''{'']),
      agent_chunk ''m1'' None (Some [call_piece [] [] ''}''])]"

text \<open>A first fragment whose tool call has the empty id, then a tool call with the id
  \<open>a\<close>.\<close>

definition unnamed_then_named :: "chat_agent_chunk list" where
  "unnamed_then_named =
     [agent_chunk ''m1'' None (Some [call_piece [] ''lookup'' ''{}'']),
      agent_chunk ''m1'' None (Some [call_piece ''a'' ''search'' ''{}''])]"



text \<open>A chat-completions chunk with a content delta.\<close>

definition completion_chunk :: "string \<Rightarrow> raw_chunk" where
  "completion_chunk content =
     \<lparr>rc_choices = Some [\<lparr>ch_delta_content = Some content\<rparr>], rc_delta = None, rc_type = None,
      rc_item = None, rc_request_id = None, rc_other = []\<rparr>"




section \<open>Properties\<close>

subsection \<open>Dict keys\<close>




subsection \<open>Task-type resolution\<close>

text \<open>
  C9. \<open>_get_endpoint_task_type\<close> never raises: it always returns a task type; when the
  metadata lookup raises it returns \<open>"chat/completions"\<close>, and when the lookup succeeds it
  returns the endpoint's task if that is non-empty and \<open>"chat/completions"\<close> otherwise. Its
  only interaction with the outside is the lookup.
\<close>

theorem task_type_resolution_never_raises:
  "(\<exists>t. get_endpoint_task_type sget ep tok = Inr t) \<and>
   ((\<exists>e. sget (get_workspace_client_with_token tok) ep = Inl e) \<longrightarrow>
      get_endpoint_task_type sget ep tok = Inr ''chat/completions'') \<and>
   (\<forall>info. sget (get_workspace_client_with_token tok) ep = Inr info \<longrightarrow>
      get_endpoint_task_type sget ep tok =
        Inr (if truthy (ep_task info) then get_or (ep_task info) [] else ''chat/completions''))"
  by (auto simp: get_endpoint_task_type_def get_endpoint_task_type_body_def Let_def split: sum.splits)

theorem task_type_resolution_witness:
  "get_endpoint_task_type (\<lambda>c n. Inl (Exception ''connection refused'')) ''my-endpoint'' (Some ''tok'')
     = Inr ''chat/completions'' \<and>
   get_endpoint_task_type (\<lambda>c n. Inr \<lparr>ep_task = None\<rparr>) ''my-endpoint'' None
     = Inr ''chat/completions'' \<and>
   get_endpoint_task_type (\<lambda>c n. Inr \<lparr>ep_task = Some ''agent/v2/chat''\<rparr>)
     ''my-endpoint'' None
     = Inr ''agent/v2/chat''"
  using task_type_resolution_never_raises
          [of "\<lambda>c n. Inl (Exception ''connection refused'')" "''my-endpoint''" "Some ''tok''"]
        task_type_resolution_never_raises
          [of "\<lambda>c n. Inr \<lparr>ep_task = None\<rparr>" "''my-endpoint''" None]
        task_type_resolution_never_raises
          [of "\<lambda>c n. Inr \<lparr>ep_task = Some ''agent/v2/chat''\<rparr>"
              "''my-endpoint''" None]
  by simp

subsection \<open>Feedback\<close>

text \<open>
  C8. \<open>submit_feedback\<close>: no rating gives an empty list of text assessments; a rating gives
  one assessment \<open>{ratings: {answer_correct: {value: p}}, free_text_comment: null}\<close> with
  \<open>p = "positive"\<close> for the rating 1 and \<open>"negative"\<close> for any other rating. The one
  outbound call carries one record: the JSON-encoded source identity, the request id, the
  JSON-encoded assessments and a JSON-encoded empty list of retrieval assessments.
\<close>

theorem feedback_mapping:
  "text_assessments None = [] \<and>
   text_assessments (Some r) =
     [JDict [(''ratings'', JDict [(''answer_correct'',
                JDict [(''value'', JStr (if r = 1 then ''positive'' else ''negative''))])]),
             (''free_text_comment'', JNull)]] \<and>
   submit_feedback dumps do endpoint request_id rating user_token =
     do (get_workspace_client_with_token user_token)
        \<lparr>fc_method = ''POST'',
         fc_path = ''/serving-endpoints/'' @ endpoint @ ''/served-models/feedback/invocations'',
         fc_dataframe_records =
           [\<lparr>fr_source = dumps (JDict [(''id'', JStr ''e2e-chatbot-app''), (''type'', JStr ''human'')]),
             fr_request_id = request_id,
             fr_text_assessments = dumps (JList (text_assessments rating)),
             fr_retrieval_assessments = dumps (JList [])\<rparr>]\<rparr>"
  by (simp add: text_assessments_def rating_string_def submit_feedback_def proxy_payload_def)

subsection \<open>The non-streaming responses-agent query\<close>

text \<open>When every item is read without an exception, the loop returns the messages of
  the items in order.\<close>

lemma add_items_messages_concat:
  "\<forall>it \<in> set its. output_item_messages it = Inr (g it) \<Longrightarrow>
   add_items_messages its acc = Inr (acc @ concat (map g its))"
  by (induction its arbitrary: acc) simp_all

text \<open>A \<open>text\<close> that is \<open>None\<close> in an \<open>output_text\<close> part makes the parser raise.\<close>

lemma null_text_raises:
  "output_item_messages
     \<lparr>it_type = Val ''message'', it_role = Val ''assistant'', it_id = Val ''msg-1'',
      it_call_id = Missing, it_name = Missing, it_arguments = Missing, it_output = Missing,
      it_content = Val [\<lparr>cp_type = Val ''output_text'', cp_text = Null\<rparr>]\<rparr>
   = Inl TypeError"
  by (simp add: output_item_messages_def content_parts_of_def text_content_of_def)



subsection \<open>The streaming chat query\<close>

text \<open>
  C5. The raw chunk \<open>{"foo": "bar"}\<close> has neither \<open>choices\<close> nor \<open>delta\<close>. Under a user
  token \<open>_query_chat_endpoint_stream\<close> skips it: the stream yields nothing and ends without
  an error. Under the service credential the same chunk ends the stream with the
  unexpected-format exception.
\<close>

theorem unrecognized_chunk_ignored_under_user_token:
  "query_chat_endpoint_stream foo_transport ''my-endpoint'' [example_user] False (Some ''tok'')
     = ([], None) \<and>
   query_chat_endpoint_stream foo_transport ''my-endpoint'' [example_user] False None
     = ([], Some unexpected_endpoint_format)"
  by (simp add: query_chat_endpoint_stream_def foo_transport_def line_chunks_def strip_def
      is_space_def foo_chunk_def)

subsection \<open>The responses-agent adapter\<close>




text \<open>
  C7. On the streaming path a \<open>message\<close> item with two \<open>output_text\<close> parts gives two
  messages, one per part, in the \<open>chunk\<close> and \<open>complete\<close> phases and in the response; the
  non-streaming parser gives one message with the concatenated text for the same item.
\<close>

theorem streamed_message_parts_not_concatenated:
  "query_and_process (stream_backend [two_part_event] None) example_service
     ''agent/v1/responses'' [example_user] True None =
     ([Render ''start'' NoData,
       StreamCall \<lparr>ec_endpoint_name = ''my-endpoint'', ec_messages = [example_user],
                   ec_return_traces = True, ec_user_token = None\<rparr>,
       Render ''chunk'' (Messages [assistant_text ''Hello, '', assistant_text ''world'']),
       Render ''complete'' (Messages [assistant_text ''Hello, '', assistant_text ''world''])],
      Inr \<lparr>ar_messages = [assistant_text ''Hello, '', assistant_text ''world''],
           ar_request_id = None, ar_user_token = None\<rparr>) \<and>
   output_item_messages two_part_item = Inr [assistant_text ''Hello, world'']"
  by (simp add: query_and_process_def query_responses_endpoint_streaming_def stream_backend_def
      accept_event_def example_service_def responses_step_def two_part_event_def render_def
      stream_item_messages_def output_item_messages_def two_part_item_def
      part_messages_def content_parts_of_def text_content_of_def Let_def)

subsection \<open>The chunk reducer\<close>

lemma upsert_alt:
  "upsert_tool_call tc tm =
     (if truthy (tc_id tc) then
        (if get_or (tc_id tc) [] \<notin> set (map fst tm) then tm @ [(get_or (tc_id tc) [], new_call tc)]
         else update_call (get_or (tc_id tc) []) (absorb tc) tm)
      else tm)"
  unfolding upsert_tool_call_def Let_def new_call_def absorb_def [abs_def] call_name_def
    call_args_def
  by simp

lemma keys_update_call: "map fst (update_call k f tm) = map fst tm"
  by (induction tm) auto

lemma keys_update_call_set: "fst ` set (update_call k f tm) = fst ` set tm"
  using keys_update_call [of k f tm] by (metis set_map)

lemma keys_upsert:
  "set (map fst (upsert_tool_call tc tm)) \<subseteq> insert (get_or (tc_id tc) []) (set (map fst tm))"
  by (auto simp: upsert_alt keys_update_call_set)

lemma truthy_id: "truthy x \<Longrightarrow> x = Some (get_or x [])"
  by (cases x) auto

lemma upsert_head_same:
  "truthy (tc_id tc) \<Longrightarrow> tc_id tc = Some c \<Longrightarrow>
   upsert_tool_call tc ((c, e) # tm) = (c, absorb tc e) # tm"
  by (simp add: upsert_alt)

lemma upsert_head_other:
  "tc_id tc \<noteq> Some c \<Longrightarrow> upsert_tool_call tc ((c, e) # tm) = (c, e) # upsert_tool_call tc tm"
  by (cases "tc_id tc") (auto simp: upsert_alt)

lemma fold_upsert_head:
  "c \<notin> set (map fst tm) \<Longrightarrow> c \<noteq> [] \<Longrightarrow>
   fold upsert_tool_call S ((c, e) # tm) =
     (c, fold absorb (filter (\<lambda>tc. tc_id tc = Some c) S) e)
     # fold upsert_tool_call (filter (\<lambda>tc. tc_id tc \<noteq> Some c) S) tm"
proof (induction S arbitrary: e tm)
  case Nil
  then show ?case by simp
next
  case (Cons s S)
  show ?case
  proof (cases "tc_id s = Some c")
    case True
    with Cons.prems have "upsert_tool_call s ((c, e) # tm) = (c, absorb s e) # tm"
      by (simp add: upsert_head_same)
    with True Cons.IH [OF Cons.prems] show ?thesis by simp
  next
    case False
    then have step: "upsert_tool_call s ((c, e) # tm) = (c, e) # upsert_tool_call s tm"
      by (rule upsert_head_other)
    have "c \<notin> set (map fst (upsert_tool_call s tm))"
    proof
      assume "c \<in> set (map fst (upsert_tool_call s tm))"
      with keys_upsert [of s tm] Cons.prems(1) have c: "c = get_or (tc_id s) []" by auto
      with False Cons.prems(2) show False by (cases "tc_id s") auto
    qed
    from Cons.IH [OF this Cons.prems(2)] step False show ?thesis by simp
  qed
qed

lemma fold_absorb:
  "fold absorb later e =
     e\<lparr>ac_arguments := ac_arguments e @ concat (map call_args later),
       ac_name := last (ac_name e # filter truthy (map call_name later))\<rparr>"
  by (induction later arbitrary: e) (simp_all add: absorb_def)

lemma fold_upsert_untruthy:
  "fold upsert_tool_call S tm = fold upsert_tool_call (filter (\<lambda>tc. truthy (tc_id tc)) S) tm"
  by (induction S arbitrary: tm) (simp_all add: upsert_alt)

lemma fold_upsert_spec:
  "\<forall>tc \<in> set S. truthy (tc_id tc) \<Longrightarrow>
   map (\<lambda>kv. to_tool_call (snd kv)) (fold upsert_tool_call S []) = spec_tool_calls S"
proof (induction S rule: spec_tool_calls.induct)
  case 1
  then show ?case by simp
next
  case (2 s later)
  from "2.prems" have t: "truthy (tc_id s)" by simp
  then obtain c where c: "tc_id s = Some c" "c \<noteq> []" by (cases "tc_id s") auto
  have first: "upsert_tool_call s [] = [(c, new_call s)]"
    using c by (simp add: upsert_alt)
  have "fold upsert_tool_call (s # later) [] =
          (c, fold absorb (filter (\<lambda>tc. tc_id tc = Some c) later) (new_call s))
          # fold upsert_tool_call (filter (\<lambda>tc. tc_id tc \<noteq> Some c) later) []"
    using fold_upsert_head [of c "[]" later "new_call s"] c first by simp
  moreover have "map (\<lambda>kv. to_tool_call (snd kv))
                   (fold upsert_tool_call (filter (\<lambda>tc. tc_id tc \<noteq> tc_id s) later) [])
                 = spec_tool_calls (filter (\<lambda>tc. tc_id tc \<noteq> tc_id s) later)"
    using "2.IH" "2.prems" by simp
  ultimately show ?case
    using c by (simp add: fold_absorb to_tool_call_def new_call_def)
qed


lemma fold_reduce_step:
  "fold reduce_step ds (cs0, tm0, r0) =
     (cs0 @ contents_of ds, fold upsert_tool_call (concat (map calls_of ds)) tm0,
      fold keep_tool_call_id ds r0)"
proof (induction ds arbitrary: cs0 tm0 r0)
  case Nil
  then show ?case by (simp add: contents_of_def)
next
  case (Cons d ds)
  have "reduce_step d (cs0, tm0, r0) =
          (cs0 @ contents_of [d], fold upsert_tool_call (calls_of d) tm0, keep_tool_call_id d r0)"
    by (simp add: reduce_step_def contents_of_def calls_of_def keep_tool_call_id_def
        split: option.splits)
  then show ?case using Cons.IH by (simp add: contents_of_def)
qed

lemma fold_keep_calls: "m_tool_calls (fold keep_tool_call_id ds r) = m_tool_calls r"
  by (induction ds arbitrary: r) (simp_all add: keep_tool_call_id_def)

lemma fold_keep_id: "m_id (fold keep_tool_call_id ds r) = m_id r"
  by (induction ds arbitrary: r) (simp_all add: keep_tool_call_id_def)

lemma reduce_deltas_eq:
  "reduce_deltas first_delta ds =
     (if tool_map_of ds \<noteq> []
      then (fold keep_tool_call_id ds first_delta)
             \<lparr>m_tool_calls := Some (map (\<lambda>kv. to_tool_call (snd kv)) (tool_map_of ds))\<rparr>
      else fold keep_tool_call_id ds first_delta)
     \<lparr>m_content := Some (concat (contents_of ds))\<rparr>"
  by (simp add: reduce_deltas_def fold_reduce_step tool_map_of_def)

lemma reduce_nonempty:
  "reduce_chat_agent_chunks (c # cs) = Inr (reduce_deltas (delta c) (map delta (c # cs)))"
  by (simp add: reduce_chat_agent_chunks_def)

lemma content_reduce_deltas: "content_str (reduce_deltas f ds) = concat (contents_of ds)"
  by (simp add: reduce_deltas_eq content_str_def)

lemma calls_reduce_deltas:
  "calls_of (reduce_deltas f ds) =
     (if tool_map_of ds \<noteq> [] then map (\<lambda>kv. to_tool_call (snd kv)) (tool_map_of ds)
      else calls_of f)"
  by (simp add: reduce_deltas_eq calls_of_def fold_keep_calls)

lemma tool_map_of_spec:
  "map (\<lambda>kv. to_tool_call (snd kv)) (tool_map_of ds) = spec_tool_calls (sightings ds)"
proof -
  have "tool_map_of ds = fold upsert_tool_call (sightings ds) []"
    unfolding tool_map_of_def sightings_def by (rule fold_upsert_untruthy)
  moreover have "\<forall>tc \<in> set (sightings ds). truthy (tc_id tc)"
    by (simp add: sightings_def)
  ultimately show ?thesis by (simp add: fold_upsert_spec)
qed

lemma spec_tool_calls_empty: "spec_tool_calls S = [] \<longleftrightarrow> S = []"
  by (cases S) simp_all

lemma tool_map_of_empty: "tool_map_of ds = [] \<longleftrightarrow> sightings ds = []"
  using tool_map_of_spec [of ds] spec_tool_calls_empty [of "sightings ds"]
  by (metis map_is_Nil_conv)

lemma update_call_mem:
  "(k, e) \<in> set tm \<Longrightarrow>
   (k, e) \<in> set (update_call c f tm) \<or> (k = c \<and> (k, f e) \<in> set (update_call c f tm))"
  by (induction c f tm rule: update_call.induct) auto

lemma upsert_mono:
  assumes "(k, e) \<in> set tm"
  shows "\<exists>e'. (k, e') \<in> set (upsert_tool_call tc tm) \<and> ac_id e' = ac_id e \<and>
              prefix (ac_arguments e) (ac_arguments e')"
proof (cases "truthy (tc_id tc) \<and> get_or (tc_id tc) [] \<in> set (map fst tm)")
  case True
  then have eq: "upsert_tool_call tc tm = update_call (get_or (tc_id tc) []) (absorb tc) tm"
    by (simp add: upsert_alt)
  from update_call_mem [OF assms, of "get_or (tc_id tc) []" "absorb tc"]
  show ?thesis
  proof
    assume "(k, e) \<in> set (update_call (get_or (tc_id tc) []) (absorb tc) tm)"
    with eq show ?thesis by auto
  next
    assume "k = get_or (tc_id tc) [] \<and>
            (k, absorb tc e) \<in> set (update_call (get_or (tc_id tc) []) (absorb tc) tm)"
    with eq have "(k, absorb tc e) \<in> set (upsert_tool_call tc tm)" by auto
    moreover have "ac_id (absorb tc e) = ac_id e" by (simp add: absorb_def)
    moreover have "prefix (ac_arguments e) (ac_arguments (absorb tc e))" by (simp add: absorb_def)
    ultimately show ?thesis by blast
  qed
next
  case False
  then have "set tm \<subseteq> set (upsert_tool_call tc tm)"
    by (auto simp: upsert_alt)
  with assms show ?thesis by auto
qed

lemma fold_upsert_mono:
  "(k, e) \<in> set tm \<Longrightarrow>
   \<exists>e'. (k, e') \<in> set (fold upsert_tool_call S tm) \<and> ac_id e' = ac_id e \<and>
        prefix (ac_arguments e) (ac_arguments e')"
proof (induction S arbitrary: tm e)
  case Nil
  then show ?case by auto
next
  case (Cons s S)
  from upsert_mono [OF Cons.prems, of s] obtain e1 where
    e1: "(k, e1) \<in> set (upsert_tool_call s tm)" "ac_id e1 = ac_id e"
        "prefix (ac_arguments e) (ac_arguments e1)" by blast
  from Cons.IH [OF e1(1)] obtain e2 where
    e2: "(k, e2) \<in> set (fold upsert_tool_call S (upsert_tool_call s tm))" "ac_id e2 = ac_id e1"
        "prefix (ac_arguments e1) (ac_arguments e2)" by blast
  from e1 e2 have "prefix (ac_arguments e) (ac_arguments e2)" by (meson prefix_order.order_trans)
  with e1 e2 show ?case by auto
qed

lemma contents_of_append: "contents_of (xs @ ys) = contents_of xs @ contents_of ys"
  by (simp add: contents_of_def)

lemma tool_map_of_append:
  "tool_map_of (xs @ ys) = fold upsert_tool_call (concat (map calls_of ys)) (tool_map_of xs)"
  by (simp add: tool_map_of_def)

lemma sightings_Cons: "sightings (d # ds) = filter (\<lambda>tc. truthy (tc_id tc)) (calls_of d) @ sightings ds"
  by (simp add: sightings_def)

lemma reduce_deltas_mono:
  fixes f :: message and xs ys :: "message list"
  defines "m \<equiv> reduce_deltas f (f # xs)" and "m' \<equiv> reduce_deltas f (f # xs @ ys)"
  shows "prefix (content_str m) (content_str m') \<and>
         (\<forall>tc \<in> set (calls_of m). truthy (tc_id tc) \<longrightarrow>
            (\<exists>tc' \<in> set (calls_of m'). tc_id tc' = tc_id tc \<and> prefix (call_args tc) (call_args tc')))"
proof
  have "contents_of (f # xs @ ys) = contents_of (f # xs) @ contents_of ys"
    using contents_of_append [of "f # xs" ys] by simp
  then show "prefix (content_str m) (content_str m')"
    by (simp add: m_def m'_def content_reduce_deltas)
next
  have tm': "tool_map_of (f # xs @ ys) = fold upsert_tool_call (concat (map calls_of ys)) (tool_map_of (f # xs))"
    using tool_map_of_append [of "f # xs" ys] by simp
  show "\<forall>tc \<in> set (calls_of m). truthy (tc_id tc) \<longrightarrow>
            (\<exists>tc' \<in> set (calls_of m'). tc_id tc' = tc_id tc \<and> prefix (call_args tc) (call_args tc'))"
  proof (intro ballI impI)
    fix tc assume tc: "tc \<in> set (calls_of m)" and t: "truthy (tc_id tc)"
    have ne: "tool_map_of (f # xs) \<noteq> []"
    proof
      assume empty: "tool_map_of (f # xs) = []"
      then have "tc \<in> set (calls_of f)" using tc by (simp add: m_def calls_reduce_deltas)
      with t have "tc \<in> set (sightings (f # xs))" by (simp add: sightings_Cons)
      with empty show False by (simp add: tool_map_of_empty)
    qed
    with tc obtain k e where ke: "(k, e) \<in> set (tool_map_of (f # xs))" "tc = to_tool_call e"
      by (auto simp: m_def calls_reduce_deltas)
    from fold_upsert_mono [OF ke(1), of "concat (map calls_of ys)"] tm'
    obtain e' where e': "(k, e') \<in> set (tool_map_of (f # xs @ ys))" "ac_id e' = ac_id e"
        "prefix (ac_arguments e) (ac_arguments e')" by auto
    then have "tool_map_of (f # xs @ ys) \<noteq> []" by auto
    with e'(1) have "to_tool_call e' \<in> set (calls_of m')"
      by (force simp: m'_def calls_reduce_deltas)
    moreover have "tc_id (to_tool_call e') = tc_id tc" using e'(2) ke(2) by (simp add: to_tool_call_def)
    moreover have "prefix (call_args tc) (call_args (to_tool_call e'))"
      using e'(3) ke(2) by (simp add: to_tool_call_def call_args_def)
    ultimately show "\<exists>tc' \<in> set (calls_of m'). tc_id tc' = tc_id tc \<and> prefix (call_args tc) (call_args tc')"
      by blast
  qed
qed


lemma spec_tool_calls_order: "map tc_id (spec_tool_calls S) = first_seen (map tc_id S)"
proof (induction S rule: spec_tool_calls.induct)
  case 1
  then show ?case by simp
next
  case (2 s later)
  have "filter (\<lambda>y. y \<noteq> tc_id s) (map tc_id later) =
          map tc_id (filter (\<lambda>tc. tc_id tc \<noteq> tc_id s) later)"
    by (simp add: filter_map comp_def)
  with "2.IH" show ?case by simp
qed

text \<open>Evaluating the reducer on a concrete list of chunks.\<close>

lemmas reducer_eval =
  reduce_chat_agent_chunks_def reduce_deltas_def reduce_step_def upsert_tool_call_def
  to_tool_call_def agent_chunk_def call_piece_def Let_def

text \<open>
  C3. The tool calls of the reduced message follow the specification's rule on the
  sightings of the fragment sequence, that is on the tool calls with a non-empty id: the
  first fragment carrying such an id fixes the call's place, name and first arguments,
  every later fragment with that id appends its arguments and replaces the name only by a
  non-empty one, and the list is in the order of first sighting. A tool call whose id is
  empty or missing is skipped, and when no tool call carries an id the first fragment's
  tool calls are left as they are. The fragments of the call \<open>a\<close> with the pieces
  \<open>{"x":1\<close> and \<open>}\<close> reduce to the arguments \<open>{"x":1}\<close>.
\<close>

theorem tool_calls_accumulate:
  "(\<exists>m. reduce_chat_agent_chunks (c # cs) = Inr m \<and>
        m_tool_calls m =
          (if sightings (map delta (c # cs)) = [] then m_tool_calls (delta c)
           else Some (spec_tool_calls (sightings (map delta (c # cs))))) \<and>
        map tc_id (spec_tool_calls (sightings (map delta (c # cs)))) =
          first_seen (map tc_id (sightings (map delta (c # cs))))) \<and>
   map call_args (result_calls (reduce_chat_agent_chunks argument_pieces)) = [''{\"x\":1}'']"
proof
  have "m_tool_calls (reduce_deltas (delta c) (map delta (c # cs))) =
          (if sightings (map delta (c # cs)) = [] then m_tool_calls (delta c)
           else Some (spec_tool_calls (sightings (map delta (c # cs)))))"
    by (simp add: reduce_deltas_eq tool_map_of_spec tool_map_of_empty fold_keep_calls
        fold_keep_id del: list.map)
  then show "\<exists>m. reduce_chat_agent_chunks (c # cs) = Inr m \<and>
        m_tool_calls m =
          (if sightings (map delta (c # cs)) = [] then m_tool_calls (delta c)
           else Some (spec_tool_calls (sightings (map delta (c # cs))))) \<and>
        map tc_id (spec_tool_calls (sightings (map delta (c # cs)))) =
          first_seen (map tc_id (sightings (map delta (c # cs))))"
    using reduce_nonempty [of c cs] spec_tool_calls_order by simp
next
  show "map call_args (result_calls (reduce_chat_agent_chunks argument_pieces)) = [''{\"x\":1}'']"
    by (simp add: argument_pieces_def result_calls_def calls_of_def call_args_def reducer_eval)
qed

theorem tool_calls_accumulate_witness:
  "\<exists>m. reduce_chat_agent_chunks argument_pieces = Inr m \<and>
       m_tool_calls m = Some [call_piece ''a'' ''lookup'' ''{\"x\":1}'']"
  using tool_calls_accumulate
    [of "agent_chunk ''m1'' None (Some [call_piece ''a'' ''lookup'' ''{\"x\":1''])"
        "[agent_chunk ''m1'' None (Some [call_piece ''a'' [] ''}''])]"]
  by (simp add: argument_pieces_def sightings_def calls_of_def call_name_def call_args_def
      agent_chunk_def call_piece_def)

theorem tool_calls_accumulate_counterexample:
  "map call_args (result_calls (reduce_chat_agent_chunks unnamed_pieces)) = [''{'']"
  by (simp add: unnamed_pieces_def result_calls_def calls_of_def call_args_def reducer_eval)

text \<open>
  C2. For prefixes of lengths \<open>1 \<le> k \<le> k' \<le> length cs\<close> the reducer returns a message
  for both, the content at \<open>k\<close> is a prefix of the content at \<open>k'\<close>, and every tool call
  with a non-empty id reported at \<open>k\<close> is reported at \<open>k'\<close> with the same id and with
  arguments that extend those at \<open>k\<close>. On the empty prefix the reducer raises
  \<open>IndexError\<close>.
\<close>

theorem reduce_prefix_monotone:
  assumes "1 \<le> k" and "k \<le> k'" and "k' \<le> length cs"
  shows "\<exists>m m'. reduce_chat_agent_chunks (take k cs) = Inr m \<and>
                reduce_chat_agent_chunks (take k' cs) = Inr m' \<and>
                prefix (content_str m) (content_str m') \<and>
                (\<forall>tc \<in> set (calls_of m). truthy (tc_id tc) \<longrightarrow>
                   (\<exists>tc' \<in> set (calls_of m'). tc_id tc' = tc_id tc \<and>
                      prefix (call_args tc) (call_args tc')))"
proof -
  from assms obtain c rest where cs: "cs = c # rest" by (cases cs) auto
  from assms obtain j j' where k: "k = Suc j" "k' = Suc j'" "j \<le> j'"
    by (cases k; cases k') auto
  have tk: "take k cs = c # take j rest" and tk': "take k' cs = c # take j' rest"
    using cs k by simp_all
  from k(3) have "take j' rest = take j rest @ take (j' - j) (drop j rest)"
    by (metis le_add_diff_inverse take_add)
  then have "map delta (take j' rest) = map delta (take j rest) @ map delta (take (j' - j) (drop j rest))"
    by simp
  with reduce_deltas_mono [of "delta c" "map delta (take j rest)" "map delta (take (j' - j) (drop j rest))"]
  show ?thesis
    by (simp add: tk tk' reduce_nonempty)
qed

theorem reduce_prefix_monotone_witness:
  "\<exists>m m'. reduce_chat_agent_chunks (take 1 growing_pieces) = Inr m \<and>
          reduce_chat_agent_chunks (take 2 growing_pieces) = Inr m' \<and>
          prefix (content_str m) (content_str m') \<and>
          content_str m = ''Hel'' \<and> content_str m' = ''Hello'' \<and>
          map call_args (calls_of m) = [''{''] \<and> map call_args (calls_of m') = [''{}'']"
  using reduce_prefix_monotone [of 1 2 growing_pieces]
  by (simp add: growing_pieces_def content_str_def calls_of_def call_args_def reducer_eval)

theorem reduce_prefix_monotone_counterexample:
  "map tc_id (result_calls (reduce_chat_agent_chunks (take 1 unnamed_then_named))) = [Some []] \<and>
   map tc_id (result_calls (reduce_chat_agent_chunks (take 2 unnamed_then_named))) = [Some ''a''] \<and>
   reduce_chat_agent_chunks (take 0 unnamed_then_named) = Inl IndexError"
  by (simp add: unnamed_then_named_def result_calls_def calls_of_def reducer_eval)

lemma reduce_empty: "reduce_chat_agent_chunks [] = Inl IndexError"
  by (simp add: reduce_chat_agent_chunks_def)

subsection \<open>The chat-agent stream\<close>












text \<open>
  C4. For a chat-agent stream whose chunks all validate and which ends normally, with a
  render callback: the effects are \<open>start\<close>, the stream call, one \<open>chunk\<close> phase per
  chunk and \<open>complete\<close>. The messages of \<open>complete\<close> and of the response, and the
  \<open>all_messages\<close> of each \<open>chunk\<close> phase for the chunks seen so far, are the reductions
  of the chunks of each message id on their own, in the order in which the ids first
  appear.
\<close>




subsection \<open>Fallback\<close>

text \<open>
  C1. A chat-completions stream that yields one chunk and then raises, with a render
  callback and the user token \<open>user-token\<close>: \<open>error\<close> is emitted once, one non-streaming
  query follows with the same endpoint and input messages, then \<open>complete\<close> once with the
  fallback's messages; but the query is issued without the user token. The chat-agent
  path passes the token on.
\<close>

theorem completions_fallback_drops_user_token:
  "query_and_process
     (stream_backend [completion_chunk ''Hel''] (Some (Exception ''connection reset'')))
     example_service ''chat/completions'' [example_user] True (Some ''user-token'') =
     ([Render ''start'' NoData,
       StreamCall \<lparr>ec_endpoint_name = ''my-endpoint'', ec_messages = [example_user],
                   ec_return_traces = True, ec_user_token = Some ''user-token''\<rparr>,
       Render ''chunk'' (Accumulated ''Hel''),
       Render ''error'' (ErrorText (Exception ''connection reset'')),
       QueryCall \<lparr>ec_endpoint_name = ''my-endpoint'', ec_messages = [example_user],
                  ec_return_traces = True, ec_user_token = None\<rparr>,
       Render ''complete'' (Messages [assistant_text ''Hello''])],
      Inr \<lparr>ar_messages = [assistant_text ''Hello''], ar_request_id = Some ''req-1'',
           ar_user_token = None\<rparr>) \<and>
   fst (query_and_process
     (stream_backend [] (Some (Exception ''connection reset'')))
     example_service ''agent/v2/chat'' [example_user] True (Some ''user-token'')) =
     [Render ''start'' NoData,
       StreamCall \<lparr>ec_endpoint_name = ''my-endpoint'', ec_messages = [example_user],
                   ec_return_traces = True, ec_user_token = Some ''user-token''\<rparr>,
       Render ''error'' (ErrorText (Exception ''connection reset'')),
       QueryCall \<lparr>ec_endpoint_name = ''my-endpoint'', ec_messages = [example_user],
                  ec_return_traces = True, ec_user_token = Some ''user-token''\<rparr>,
       Render ''complete'' (Messages [assistant_text ''Hello''])]"
  by (simp add: query_and_process_def query_chat_completions_endpoint_def
      query_chat_agent_endpoint_def stream_backend_def example_service_def completions_step_def
      completion_chunk_def fallback_def render_def Let_def)


end
